theory Spec2Isabelle
  imports Complex_Main "HOL-Library.Multiset"
begin

section \<open>Python values and exceptions\<close>

text \<open>
  The scripts handle whatever \<^verbatim>\<open>response.json()\<close> decodes: Python's image of a JSON
  document. \<open>JNull\<close> is Python's \<^verbatim>\<open>None\<close>, which is also what \<^verbatim>\<open>fetch_json\<close> returns for
  a failed request. A dict is an association list, read with \<open>map_of\<close>; its keys are
  meant to be distinct, as the keys of a Python dict are.
\<close>

datatype json =
    JNull
  | JBool bool
  | JInt int
  | JFloat rat
  | JStr string
  | JArr "json list"
  | JObj "(string \<times> json) list"

text \<open>
  The exception classes that can occur. The first three are subclasses of
  \<^verbatim>\<open>aiohttp.ClientError\<close>: a failed connection, a status of 400 or more reported by
  \<^verbatim>\<open>raise_for_status()\<close>, and a response whose content type is not JSON.
  \<open>JSONDecodeError\<close> is what \<^verbatim>\<open>json.loads\<close> raises on a body that is not JSON; it is a
  \<^verbatim>\<open>ValueError\<close>, not a \<^verbatim>\<open>ClientError\<close>. \<open>OSError\<close> stands for an \<^verbatim>\<open>IOError\<close> that is
  not a \<^verbatim>\<open>ClientError\<close>.
\<close>

datatype exn =
    ClientConnectorError
  | ClientResponseError nat
  | ContentTypeError
  | JSONDecodeError
  | OSError
  | AttributeError
  | TypeError
  | ValueError

fun is_ClientError :: "exn \<Rightarrow> bool" where
  "is_ClientError ClientConnectorError = True"
| "is_ClientError (ClientResponseError status) = True"
| "is_ClientError ContentTypeError = True"
| "is_ClientError e = False"

fun is_IOError :: "exn \<Rightarrow> bool" where
  "is_IOError OSError = True"
| "is_IOError e = False"

text \<open>Truth value testing, as \<^verbatim>\<open>if x:\<close> and \<^verbatim>\<open>if not x:\<close> perform it.\<close>

fun truthy :: "json \<Rightarrow> bool" where
  "truthy JNull = False"
| "truthy (JBool b) = b"
| "truthy (JInt n) = (n \<noteq> 0)"
| "truthy (JFloat r) = (r \<noteq> 0)"
| "truthy (JStr s) = (s \<noteq> [])"
| "truthy (JArr xs) = (xs \<noteq> [])"
| "truthy (JObj d) = (d \<noteq> [])"

text \<open>\<^verbatim>\<open>d.get(key, default)\<close> on a dict.\<close>

definition dict_get :: "(string \<times> json) list \<Rightarrow> string \<Rightarrow> json \<Rightarrow> json" where
  "dict_get d key dflt = (case map_of d key of Some v \<Rightarrow> v | None \<Rightarrow> dflt)"

text \<open>
  \<^verbatim>\<open>x.get(key, default)\<close> on any value: only a dict has the method, every other JSON
  value raises \<^verbatim>\<open>AttributeError\<close>.
\<close>

fun py_get :: "json \<Rightarrow> string \<Rightarrow> json \<Rightarrow> exn + json" where
  "py_get (JObj d) key dflt = Inr (dict_get d key dflt)"
| "py_get x key dflt = Inl AttributeError"

text \<open>
  Iteration (\<^verbatim>\<open>for item in x\<close>, \<^verbatim>\<open>list.extend(x)\<close>, \<^verbatim>\<open>map(f, x)\<close>): a list gives its
  elements, a dict its keys, a string its characters; the other values are not
  iterable.
\<close>

fun py_iter :: "json \<Rightarrow> exn + json list" where
  "py_iter (JArr xs) = Inr xs"
| "py_iter (JObj d) = Inr (map (\<lambda>kv. JStr (fst kv)) d)"
| "py_iter (JStr s) = Inr (map (\<lambda>c. JStr [c]) s)"
| "py_iter x = Inl TypeError"

text \<open>
  What \<^verbatim>\<open>range\<close> accepts as a bound: an \<^verbatim>\<open>int\<close> (a \<^verbatim>\<open>bool\<close> is one); anything else is a
  \<^verbatim>\<open>TypeError\<close>.
\<close>

fun py_index :: "json \<Rightarrow> exn + int" where
  "py_index (JInt n) = Inr n"
| "py_index (JBool b) = Inr (if b then 1 else 0)"
| "py_index x = Inl TypeError"

section \<open>\<^verbatim>\<open>range(start, stop, step)\<close>\<close>

function range_up :: "int \<Rightarrow> int \<Rightarrow> int \<Rightarrow> int list" where
  "range_up i stop step =
     (if 0 < step \<and> i < stop then i # range_up (i + step) stop step else [])"
  by pat_completeness auto
termination
  by (relation "measure (\<lambda>(i, stop, step). nat (stop - i))") auto

declare range_up.simps [simp del]

function range_down :: "int \<Rightarrow> int \<Rightarrow> int \<Rightarrow> int list" where
  "range_down i stop step =
     (if step < 0 \<and> stop < i then i # range_down (i + step) stop step else [])"
  by pat_completeness auto
termination
  by (relation "measure (\<lambda>(i, stop, step). nat (i - stop))") auto

declare range_down.simps [simp del]

text \<open>
  The bound comes from the response and is checked first; a step of zero is a
  \<^verbatim>\<open>ValueError\<close>.
\<close>

definition py_range :: "int \<Rightarrow> json \<Rightarrow> int \<Rightarrow> exn + int list" where
  "py_range start stop step =
     (case py_index stop of
        Inl e \<Rightarrow> Inl e
      | Inr t \<Rightarrow>
          if step = 0 then Inl ValueError
          else if 0 < step then Inr (range_up start t step)
          else Inr (range_down start t step))"

section \<open>Formatting an integer into a URL\<close>

fun str_nat :: "nat \<Rightarrow> string" where
  "str_nat n =
     (if n < 10 then [''0123456789'' ! n]
      else str_nat (n div 10) @ [''0123456789'' ! (n mod 10)])"

declare str_nat.simps [simp del]

definition str_int :: "int \<Rightarrow> string" where
  "str_int i = (if i < 0 then ''-'' @ str_nat (nat (- i)) else str_nat (nat i))"

section \<open>Configuration of the streaming scripts\<close>

record config =
  base_api_url :: string
  max_results_per_page :: int
  start_param :: string
  limit_param :: string
  total_key :: string
  items_key :: string
  fields_to_extract :: "string list"

definition page_url :: "config \<Rightarrow> int \<Rightarrow> string" where
  "page_url cfg start_index =
     base_api_url cfg @ ''?'' @ limit_param cfg @ ''='' @ str_int (max_results_per_page cfg)
       @ ''&'' @ start_param cfg @ ''='' @ str_int start_index"

text \<open>Step 3 of \<^verbatim>\<open>main\<close>: one URL for every remaining page.\<close>

definition urls_to_fetch :: "config \<Rightarrow> json \<Rightarrow> exn + string list" where
  "urls_to_fetch cfg total_items =
     (case py_range (max_results_per_page cfg) total_items (max_results_per_page cfg) of
        Inl e \<Rightarrow> Inl e
      | Inr start_indexes \<Rightarrow> Inr (map (page_url cfg) start_indexes))"

section \<open>The page fetcher\<close>

text \<open>
  What the network does with one request. \<^verbatim>\<open>session.get(url)\<close> raises (\<open>NoResponse\<close>),
  or gives a response with a status code and with what \<^verbatim>\<open>response.json()\<close> will do:
  raise (\<open>ContentTypeError\<close>, \<open>JSONDecodeError\<close>) or return the decoded body.
\<close>

datatype reply = NoResponse exn | Response nat "exn + json"

type_synonym network = "string \<Rightarrow> reply"

text \<open>
  The body of the \<^verbatim>\<open>try\<close> block: \<^verbatim>\<open>raise_for_status()\<close> raises for a status of 400 or
  more, then the body is decoded.
\<close>

definition request_json :: "reply \<Rightarrow> exn + json" where
  "request_json r =
     (case r of
        NoResponse e \<Rightarrow> Inl e
      | Response status body \<Rightarrow>
          if 400 \<le> status then Inl (ClientResponseError status) else body)"

text \<open>\<^verbatim>\<open>except aiohttp.ClientError: return None\<close>; any other exception propagates.\<close>

definition fetch_json :: "network \<Rightarrow> string \<Rightarrow> exn + json" where
  "fetch_json net url =
     (case request_json (net url) of
        Inl e \<Rightarrow> if is_ClientError e then Inr JNull else Inl e
      | Inr v \<Rightarrow> Inr v)"

section \<open>The CSV sink\<close>

text \<open>
  The output file is the list of the records written to it, in order. A record is
  tagged with the call that wrote it: \<open>Header\<close> by \<^verbatim>\<open>writeheader()\<close>, \<open>Row\<close> by
  \<^verbatim>\<open>writerows()\<close>. The cells of a row are kept as values; how the \<^verbatim>\<open>csv\<close> module prints
  a cell is not modelled. A sink operation returns the records it appended and how it
  ended.
\<close>

datatype csv_line = Header "string list" | Row "json list"

datatype completion = Returned | Raised exn

text \<open>
  \<^verbatim>\<open>DictWriter._dict_to_list\<close> with \<^verbatim>\<open>extrasaction='ignore'\<close>: one
  \<^verbatim>\<open>rowdict.get(key, '')\<close> for every field name.
\<close>

definition dict_to_list :: "string list \<Rightarrow> json \<Rightarrow> exn + json list" where
  "dict_to_list fieldnames rowdict =
     (if fieldnames = [] then Inr []
      else case rowdict of
             JObj d \<Rightarrow> Inr (map (\<lambda>key. dict_get d key (JStr [])) fieldnames)
           | _ \<Rightarrow> Inl AttributeError)"

fun write_each :: "string list \<Rightarrow> json list \<Rightarrow> csv_line list \<times> completion" where
  "write_each fieldnames [] = ([], Returned)"
| "write_each fieldnames (rowdict # rowdicts) =
     (case dict_to_list fieldnames rowdict of
        Inl e \<Rightarrow> ([], Raised e)
      | Inr cells \<Rightarrow>
          (let (written, c) = write_each fieldnames rowdicts in (Row cells # written, c)))"

definition writerows :: "string list \<Rightarrow> json \<Rightarrow> csv_line list \<times> completion" where
  "writerows fieldnames rowdicts =
     (case py_iter rowdicts of
        Inl e \<Rightarrow> ([], Raised e)
      | Inr xs \<Rightarrow> write_each fieldnames xs)"

definition writeheader :: "string list \<Rightarrow> csv_line list" where
  "writeheader fieldnames = [Header fieldnames]"

text \<open>
  The text of the header record: the \<^verbatim>\<open>csv\<close> module (dialect \<^verbatim>\<open>excel\<close>, minimal quoting)
  joins the fields with commas and quotes a field that holds a comma, a quote or a
  line break, doubling its quotes.
\<close>

definition csv_field :: "string \<Rightarrow> string" where
  "csv_field s =
     (if \<exists>c \<in> set s. c = CHR '','' \<or> c = CHR 0x22 \<or> c = CHR 0x0A \<or> c = CHR 0x0D
      then [CHR 0x22] @ concat (map (\<lambda>c. if c = CHR 0x22 then [c, c] else [c]) s) @ [CHR 0x22]
      else s)"

fun join_commas :: "string list \<Rightarrow> string" where
  "join_commas [] = []"
| "join_commas [s] = s"
| "join_commas (s # t # ts) = s @ '','' @ join_commas (t # ts)"

definition header_text :: "string list \<Rightarrow> string" where
  "header_text fieldnames = join_commas (map csv_field fieldnames)"

section \<open>The item transformer\<close>

text \<open>\<^verbatim>\<open>get_item_data\<close>: six \<^verbatim>\<open>raw_item.get(key)\<close> lookups, each \<^verbatim>\<open>None\<close> for a missing key.\<close>

fun get_item_data :: "json \<Rightarrow> exn + json" where
  "get_item_data (JObj raw_item) =
     Inr (JObj
      [(''product_id'', dict_get raw_item ''id'' JNull),
       (''product_name'', dict_get raw_item ''title'' JNull),
       (''brand_name'', dict_get raw_item ''brand'' JNull),
       (''category'', dict_get raw_item ''category'' JNull),
       (''price_usd'', dict_get raw_item ''price'' JNull),
       (''customer_rating'', dict_get raw_item ''rating'' JNull)])"
| "get_item_data x = Inl AttributeError"

text \<open>\<^verbatim>\<open>[get_item_data(item) for item in items]\<close>\<close>

fun parse_each :: "json list \<Rightarrow> exn + json list" where
  "parse_each [] = Inr []"
| "parse_each (item # items) =
     (case get_item_data item of
        Inl e \<Rightarrow> Inl e
      | Inr parsed \<Rightarrow>
          (case parse_each items of Inl e \<Rightarrow> Inl e | Inr rest \<Rightarrow> Inr (parsed # rest)))"

definition parsed_items :: "json \<Rightarrow> exn + json" where
  "parsed_items items =
     (case py_iter items of
        Inl e \<Rightarrow> Inl e
      | Inr xs \<Rightarrow> (case parse_each xs of Inl e \<Rightarrow> Inl e | Inr ys \<Rightarrow> Inr (JArr ys)))"

text \<open>The original streaming script writes the items as they are.\<close>

definition raw_items :: "json \<Rightarrow> exn + json" where
  "raw_items items = Inr items"

section \<open>The streaming pipeline\<close>

text \<open>
  \<^verbatim>\<open>asyncio.as_completed\<close> hands the tasks over as they finish. The time a request takes
  is a delay for its URL; tasks that finish together come in the order they were
  created.
\<close>

definition as_completed :: "(string \<Rightarrow> nat) \<Rightarrow> (string \<times> 'a) list \<Rightarrow> 'a list" where
  "as_completed delay tasks = map snd (sort_key (\<lambda>task. delay (fst task)) tasks)"

text \<open>
  The body of the streaming loop for one page. The parameter \<open>parse\<close> is what the
  script does to the items before writing them: nothing in the original script,
  \<^verbatim>\<open>get_item_data\<close> on each item in the script with parsing.
\<close>

definition process_page ::
  "(json \<Rightarrow> exn + json) \<Rightarrow> config \<Rightarrow> json \<Rightarrow> csv_line list \<times> completion" where
  "process_page parse cfg page_response =
     (if truthy page_response then
        (case py_get page_response (items_key cfg) (JArr []) of
           Inl e \<Rightarrow> ([], Raised e)
         | Inr items_on_page \<Rightarrow>
             if truthy items_on_page then
               (case parse items_on_page of
                  Inl e \<Rightarrow> ([], Raised e)
                | Inr rows \<Rightarrow> writerows (fields_to_extract cfg) rows)
             else ([], Returned))
      else ([], Returned))"

text \<open>
  Step 4: the loop over the completed tasks. \<^verbatim>\<open>await future\<close> raises what the task
  raised; an exception ends the loop, and what was written stays in the file.
\<close>

fun stream_pages ::
  "(json \<Rightarrow> exn + json) \<Rightarrow> config \<Rightarrow> (exn + json) list \<Rightarrow> csv_line list \<times> completion" where
  "stream_pages parse cfg [] = ([], Returned)"
| "stream_pages parse cfg (future # futures) =
     (case future of
        Inl e \<Rightarrow> ([], Raised e)
      | Inr page_response \<Rightarrow>
          (case process_page parse cfg page_response of
             (written, Raised e) \<Rightarrow> (written, Raised e)
           | (written, Returned) \<Rightarrow>
               (let (more, c) = stream_pages parse cfg futures in (written @ more, c))))"

text \<open>
  Step 2: the first page. The result is the new value of \<^verbatim>\<open>header_written\<close>, the records
  written and how the step ended.
\<close>

definition write_first_page ::
  "(json \<Rightarrow> exn + json) \<Rightarrow> config \<Rightarrow> json \<Rightarrow> bool \<times> csv_line list \<times> completion" where
  "write_first_page parse cfg first_page_items =
     (if truthy first_page_items then
        (case parse first_page_items of
           Inl e \<Rightarrow> (False, [], Raised e)
         | Inr rows \<Rightarrow>
             (let (written, c) = writerows (fields_to_extract cfg) rows
              in (True, writeheader (fields_to_extract cfg) @ written, c)))
      else (False, [], Returned))"

text \<open>
  Steps 3 and 4: the URLs fetched, the records written and how the steps ended. All the
  tasks are started before the first one is awaited.
\<close>

definition remaining_pages ::
  "(json \<Rightarrow> exn + json) \<Rightarrow> config \<Rightarrow> network \<Rightarrow> (string \<Rightarrow> nat) \<Rightarrow> json
     \<Rightarrow> string list \<times> csv_line list \<times> completion" where
  "remaining_pages parse cfg net delay total_items =
     (case urls_to_fetch cfg total_items of
        Inl e \<Rightarrow> ([], [], Raised e)
      | Inr urls \<Rightarrow>
          if urls = [] then ([], [], Returned)
          else
            (let tasks = map (\<lambda>url. (url, fetch_json net url)) urls;
                 (written, c) = stream_pages parse cfg (as_completed delay tasks)
             in (urls, written, c)))"

text \<open>
  One run: the content of the output file (opened with mode \<^verbatim>\<open>'w'\<close>, so empty at the
  start), the URLs \<^verbatim>\<open>fetch_json\<close> was called with, the flag \<^verbatim>\<open>header_written\<close>, and how
  \<^verbatim>\<open>main\<close> ended. Writing to the file is taken to succeed.
\<close>

record run =
  csv_file :: "csv_line list"
  requests :: "string list"
  header_written :: bool
  completion :: completion

definition initial_url :: "config \<Rightarrow> string" where
  "initial_url cfg =
     base_api_url cfg @ ''?'' @ limit_param cfg @ ''='' @ str_int (max_results_per_page cfg)
       @ ''&'' @ start_param cfg @ ''=0''"

definition main_body ::
  "(json \<Rightarrow> exn + json) \<Rightarrow> config \<Rightarrow> network \<Rightarrow> (string \<Rightarrow> nat) \<Rightarrow> run" where
  "main_body parse cfg net delay =
     (case fetch_json net (initial_url cfg) of
        Inl e \<Rightarrow>
          \<lparr>csv_file = [], requests = [initial_url cfg], header_written = False,
           completion = Raised e\<rparr>
      | Inr initial_response \<Rightarrow>
          if \<not> truthy initial_response then
            \<lparr>csv_file = [], requests = [initial_url cfg], header_written = False,
             completion = Returned\<rparr>
          else
            (case py_get initial_response (total_key cfg) (JInt 0) of
               Inl e \<Rightarrow>
                 \<lparr>csv_file = [], requests = [initial_url cfg], header_written = False,
                  completion = Raised e\<rparr>
             | Inr total_items \<Rightarrow>
                 (case py_get initial_response (items_key cfg) (JArr []) of
                    Inl e \<Rightarrow>
                      \<lparr>csv_file = [], requests = [initial_url cfg], header_written = False,
                       completion = Raised e\<rparr>
                  | Inr first_page_items \<Rightarrow>
                      (case write_first_page parse cfg first_page_items of
                         (hw, written, Raised e) \<Rightarrow>
                           \<lparr>csv_file = written, requests = [initial_url cfg],
                            header_written = hw, completion = Raised e\<rparr>
                       | (hw, written, Returned) \<Rightarrow>
                           (let (urls, more, c) =
                                  remaining_pages parse cfg net delay total_items
                            in \<lparr>csv_file = written @ more, requests = initial_url cfg # urls,
                                header_written = hw, completion = c\<rparr>)))))"

text \<open>\<^verbatim>\<open>except IOError\<close> around the whole of \<^verbatim>\<open>main\<close>: the error is printed, \<^verbatim>\<open>main\<close> returns.\<close>

definition except_IOError :: "run \<Rightarrow> run" where
  "except_IOError r =
     (case completion r of
        Raised e \<Rightarrow> if is_IOError e then r\<lparr>completion := Returned\<rparr> else r
      | Returned \<Rightarrow> r)"

definition main_with ::
  "(json \<Rightarrow> exn + json) \<Rightarrow> config \<Rightarrow> network \<Rightarrow> (string \<Rightarrow> nat) \<Rightarrow> run" where
  "main_with parse cfg net delay = except_IOError (main_body parse cfg net delay)"


text \<open>The two streaming scripts and their configurations.\<close>

definition main :: "config \<Rightarrow> network \<Rightarrow> (string \<Rightarrow> nat) \<Rightarrow> run" where
  "main = main_with raw_items"

definition main_with_parsing :: "config \<Rightarrow> network \<Rightarrow> (string \<Rightarrow> nat) \<Rightarrow> run" where
  "main_with_parsing = main_with parsed_items"

definition original_config :: config where
  "original_config =
     \<lparr>base_api_url = ''https://dummyjson.com/products'',
      max_results_per_page = 20,
      start_param = ''skip'',
      limit_param = ''limit'',
      total_key = ''total'',
      items_key = ''products'',
      fields_to_extract = [''id'', ''title'', ''brand'', ''category'', ''price'', ''rating'']\<rparr>"


section \<open>The total/offset script\<close>

definition offset_url :: "string \<Rightarrow> int \<Rightarrow> int \<Rightarrow> string" where
  "offset_url base_url max_results start_index =
     base_url @ ''?_start='' @ str_int start_index @ ''&_limit='' @ str_int max_results"

text \<open>The script does not read the total from the response: it is fixed.\<close>

definition simulated_total :: int where
  "simulated_total = 100"

text \<open>Step 3: the URLs of the other pages.\<close>

definition offset_urls :: "string \<Rightarrow> int \<Rightarrow> exn + string list" where
  "offset_urls base_url max_results =
     (case py_range max_results (JInt simulated_total) max_results of
        Inl e \<Rightarrow> Inl e
      | Inr start_indexes \<Rightarrow> Inr (map (offset_url base_url max_results) start_indexes))"

text \<open>
  \<^verbatim>\<open>asyncio.gather(*tasks)\<close>: the results in the order of the tasks; if a task raises, the
  exception of the first task to do so is raised.
\<close>

definition gather :: "(string \<Rightarrow> nat) \<Rightarrow> (string \<times> (exn + json)) list \<Rightarrow> exn + json list" where
  "gather delay tasks =
     (case [e. Inl e \<leftarrow> as_completed delay tasks] of
        e # _ \<Rightarrow> Inl e
      | [] \<Rightarrow> Inr [v. Inr v \<leftarrow> map snd tasks])"

text \<open>\<^verbatim>\<open>all_items.extend(page_items)\<close>: only a list has the method.\<close>

definition extend :: "json \<Rightarrow> json \<Rightarrow> exn + json" where
  "extend all_items page_items =
     (case all_items of
        JArr xs \<Rightarrow> (case py_iter page_items of Inl e \<Rightarrow> Inl e | Inr ys \<Rightarrow> Inr (JArr (xs @ ys)))
      | _ \<Rightarrow> Inl AttributeError)"

text \<open>Step 5: the pages that are not falsy are appended in the order of the requests.\<close>

fun combine :: "json \<Rightarrow> json list \<Rightarrow> exn + json" where
  "combine all_items [] = Inr all_items"
| "combine all_items (page_items # remaining) =
     (if truthy page_items then
        (case extend all_items page_items of
           Inl e \<Rightarrow> Inl e
         | Inr all_items' \<Rightarrow> combine all_items' remaining)
      else combine all_items remaining)"

text \<open>The result: the URLs requested, and the items or the exception raised.\<close>

definition fetch_all_with_total_offset ::
  "network \<Rightarrow> (string \<Rightarrow> nat) \<Rightarrow> string \<Rightarrow> int \<Rightarrow> string list \<times> (exn + json)" where
  "fetch_all_with_total_offset net delay base_url max_results =
     (let first_url = offset_url base_url max_results 0 in
      case fetch_json net first_url of
        Inl e \<Rightarrow> ([first_url], Inl e)
      | Inr initial_response \<Rightarrow>
          if \<not> truthy initial_response then ([first_url], Inr (JArr []))
          else if simulated_total = 0 then ([first_url], Inr initial_response)
          else
            (case offset_urls base_url max_results of
               Inl e \<Rightarrow> ([first_url], Inl e)
             | Inr urls \<Rightarrow>
                 (case gather delay (map (\<lambda>url. (url, fetch_json net url)) urls) of
                    Inl e \<Rightarrow> (first_url # urls, Inl e)
                  | Inr remaining \<Rightarrow> (first_url # urls, combine initial_response remaining))))"

text \<open>
  \<^verbatim>\<open>main\<close> of the total/offset script: the file is written after all pages have been
  fetched, header first; \<^verbatim>\<open>except IOError\<close> is around the writing only.
\<close>

definition main_total_offset ::
  "string \<Rightarrow> int \<Rightarrow> string list \<Rightarrow> network \<Rightarrow> (string \<Rightarrow> nat) \<Rightarrow> run" where
  "main_total_offset api_url max_results fieldnames net delay =
     (case fetch_all_with_total_offset net delay api_url max_results of
        (urls, Inl e) \<Rightarrow>
          \<lparr>csv_file = [], requests = urls, header_written = False, completion = Raised e\<rparr>
      | (urls, Inr all_items) \<Rightarrow>
          if \<not> truthy all_items then
            \<lparr>csv_file = [], requests = urls, header_written = False, completion = Returned\<rparr>
          else
            (let (written, c) = writerows fieldnames all_items
             in except_IOError
                  \<lparr>csv_file = writeheader fieldnames @ written, requests = urls,
                   header_written = True, completion = c\<rparr>))"

section \<open>The link-following script\<close>

text \<open>
  \<^verbatim>\<open>fetch_all_pages\<close>: the loop \<^verbatim>\<open>while next_url:\<close>, with the accumulator \<^verbatim>\<open>all_items\<close> and
  the list of the URLs requested so far. The loop need not end (a page may name itself
  as the next one), so the result is an option. A truthy \<^verbatim>\<open>next\<close> that is not a string is
  refused by \<^verbatim>\<open>session.get\<close> with a \<^verbatim>\<open>TypeError\<close>.
\<close>

partial_function (option) fetch_loop ::
  "network \<Rightarrow> json \<Rightarrow> json list \<Rightarrow> string list \<Rightarrow> (string list \<times> (exn + json list)) option" where
  "fetch_loop net next_url all_items requested =
     (if truthy next_url then
        (case next_url of
           JStr url \<Rightarrow>
             (case fetch_json net url of
                Inl e \<Rightarrow> Some (requested @ [url], Inl e)
              | Inr response_data \<Rightarrow>
                  if \<not> truthy response_data then Some (requested @ [url], Inr all_items)
                  else
                    (case py_get response_data ''results'' (JArr []) of
                       Inl e \<Rightarrow> Some (requested @ [url], Inl e)
                     | Inr items_on_page \<Rightarrow>
                         (case py_iter items_on_page of
                            Inl e \<Rightarrow> Some (requested @ [url], Inl e)
                          | Inr items \<Rightarrow>
                              (case py_get response_data ''next'' JNull of
                                 Inl e \<Rightarrow> Some (requested @ [url], Inl e)
                               | Inr next_url' \<Rightarrow>
                                   fetch_loop net next_url' (all_items @ items)
                                     (requested @ [url])))))
         | _ \<Rightarrow> Some (requested, Inl TypeError))
      else Some (requested, Inr all_items))"

declare fetch_loop.simps [code]


section \<open>Networks and delays used as concrete inputs\<close>

definition no_delay :: "string \<Rightarrow> nat" where
  "no_delay url = 0"

text \<open>A server that answers every request with status 200 and a body that is not JSON.\<close>

definition undecodable_net :: network where
  "undecodable_net url = Response 200 (Inl JSONDecodeError)"

text \<open>A server that answers every request with the JSON document \<^verbatim>\<open>7\<close>.\<close>

definition number_net :: network where
  "number_net url = Response 200 (Inr (JInt 7))"

text \<open>A server that answers every request with status 404.\<close>

definition not_found_net :: network where
  "not_found_net url = Response 404 (Inr (JObj [(''message'', JStr ''not found'')]))"

text \<open>
  A server whose first page is empty although it reports 40 items; the page at offset
  20 has one item.
\<close>

definition empty_first_page_net :: network where
  "empty_first_page_net url =
     (if url = ''https://dummyjson.com/products?limit=20&skip=0'' then
        Response 200 (Inr (JObj [(''products'', JArr []), (''total'', JInt 40)]))
      else if url = ''https://dummyjson.com/products?limit=20&skip=20'' then
        Response 200
          (Inr (JObj [(''products'', JArr [JObj [(''id'', JInt 21), (''title'', JStr ''Lamp'')]]),
                      (''total'', JInt 40)]))
      else NoResponse ClientConnectorError)"







text \<open>A server that answers every request with the empty object.\<close>

definition empty_object_net :: network where
  "empty_object_net url = Response 200 (Inr (JObj []))"

section \<open>Well-formed pages and the rows they give\<close>

text \<open>An item is a JSON object (a Python dict), as the docstring of \<^verbatim>\<open>get_item_data\<close> says.\<close>

fun is_item :: "json \<Rightarrow> bool" where
  "is_item (JObj d) = True"
| "is_item x = False"

text \<open>The record \<^verbatim>\<open>writerows\<close> writes for one item.\<close>

definition item_row :: "string list \<Rightarrow> json \<Rightarrow> csv_line" where
  "item_row fieldnames item =
     Row (case item of JObj d \<Rightarrow> map (\<lambda>key. dict_get d key (JStr [])) fieldnames | _ \<Rightarrow> [])"



text \<open>The items of a page response, as the streaming loop reads them.\<close>

definition page_items :: "config \<Rightarrow> json \<Rightarrow> json list" where
  "page_items cfg page =
     (case page of
        JObj d \<Rightarrow> (case dict_get d (items_key cfg) (JArr []) of JArr items \<Rightarrow> items | _ \<Rightarrow> [])
      | _ \<Rightarrow> [])"




definition page_rows :: "config \<Rightarrow> json \<Rightarrow> csv_line list" where
  "page_rows cfg page = map (item_row (fields_to_extract cfg)) (page_items cfg page)"





section \<open>Chains of linked pages\<close>


section \<open>The number of pages the specification expects\<close>

text \<open>
  The number of requests after the first page, in the words of the specification:
  \<open>ceil(t/p) - 1\<close> for a total \<open>t > 0\<close>, and \<open>0\<close> for \<open>t = 0\<close>.
\<close>

definition expected_page_count :: "int \<Rightarrow> int \<Rightarrow> nat" where
  "expected_page_count p t =
     (if t = 0 then 0 else nat (\<lceil>real_of_int t / real_of_int p\<rceil> - 1))"

section \<open>The offsets of the remaining pages\<close>

lemma range_up_length:
  "0 < p \<Longrightarrow> length (range_up i t p) = nat ((t - i + p - 1) div p)"
proof (induction i t p rule: range_up.induct)
  case (1 i stop step)
  show ?case
  proof (cases "i < stop")
    case True
    have a: "(stop - i + step - 1) div step = (stop - i - 1) div step + 1"
      using 1(2) by (metis add.commute add_diff_eq div_add_self1 less_irrefl)
    have b: "0 \<le> (stop - i - 1) div step"
      using True 1(2) by (simp add: div_int_pos_iff)
    show ?thesis
      using 1 True a b
      by (simp add: range_up.simps[of i stop step] algebra_simps nat_add_distrib)
  next
    case False
    have "(stop - i + step - 1) div step \<le> 0"
      using False 1(2) add_diff_eq nle_le pos_imp_zdiv_nonneg_iff by fastforce
    then show ?thesis
      using False by (simp add: range_up.simps[of i stop step])
  qed
qed

lemma range_up_nth:
  "k < length (range_up i t p) \<Longrightarrow> range_up i t p ! k = i + p * int k"
proof (induction i t p arbitrary: k rule: range_up.induct)
  case (1 i stop step)
  show ?case
  proof (cases "0 < step \<and> i < stop")
    case True
    then have unf: "range_up i stop step = i # range_up (i + step) stop step"
      by (simp add: range_up.simps[of i stop step])
    show ?thesis
    proof (cases k)
      case 0
      then show ?thesis using unf by simp
    next
      case (Suc j)
      have "j < length (range_up (i + step) stop step)"
        using "1.prems" unf Suc by simp
      then have "range_up (i + step) stop step ! j = i + step + step * int j"
        using "1.IH" True by simp
      then show ?thesis using unf Suc by (simp add: algebra_simps)
    qed
  next
    case False
    then have "range_up i stop step = []"
      by (simp add: range_up.simps[of i stop step])
    then show ?thesis using "1.prems" by simp
  qed
qed

lemma range_up_below: "x \<in> set (range_up i t p) \<Longrightarrow> x < t"
proof (induction i t p rule: range_up.induct)
  case (1 i stop step)
  then show ?case
    by (cases "0 < step \<and> i < stop") (auto simp: range_up.simps[of i stop step])
qed

lemma ceiling_div_pos:
  assumes "0 < p"
  shows "\<lceil>real_of_int t / real_of_int p\<rceil> = (t - 1) div p + 1"
proof (rule ceiling_unique)
  define q where "q = (t - 1) div p"
  define r where "r = (t - 1) mod p"
  have eq: "t - 1 = q * p + r" unfolding q_def r_def by simp
  have r: "0 \<le> r" "r < p" using assms unfolding r_def by simp_all
  have lo: "q * p < t" using eq r by linarith
  have hi: "t \<le> q * p + p" using eq r by linarith
  have "real_of_int (q * p) < real_of_int t" using lo by (simp only: of_int_less_iff)
  then show "of_int ((t - 1) div p + 1) - 1 < real_of_int t / real_of_int p"
    using assms unfolding q_def by (simp add: pos_less_divide_eq)
  have "real_of_int t \<le> real_of_int (q * p + p)" using hi by (simp only: of_int_le_iff)
  then show "real_of_int t / real_of_int p \<le> of_int ((t - 1) div p + 1)"
    using assms unfolding q_def by (simp add: pos_divide_le_eq algebra_simps)
qed

lemma range_up_pages:
  assumes "0 < p"
  shows "range_up p t p = map (\<lambda>k. p * (int k + 1)) [0..<nat ((t - 1) div p)]"
proof (rule nth_equalityI)
  show len: "length (range_up p t p)
      = length (map (\<lambda>k. p * (int k + 1)) [0..<nat ((t - 1) div p)])"
    using assms by (simp add: range_up_length)
  fix k assume "k < length (range_up p t p)"
  then show "range_up p t p ! k = map (\<lambda>k. p * (int k + 1)) [0..<nat ((t - 1) div p)] ! k"
    using len by (simp add: range_up_nth algebra_simps)
qed

lemma count_eq: "0 < p \<Longrightarrow> 0 \<le> t \<Longrightarrow> nat ((t - 1) div p) = expected_page_count p t"
proof (cases "t = 0")
  case True
  assume "0 < p"
  then have "(- 1) div p < 0" by (simp add: div_neg_pos_less0)
  then show ?thesis using True by (simp add: expected_page_count_def)
next
  case False
  assume "0 < p"
  then show ?thesis using False by (simp add: expected_page_count_def ceiling_div_pos)
qed

lemma py_range_pages:
  assumes "0 < p" and "0 \<le> t"
  shows "py_range p (JInt t) p = Inr (map (\<lambda>k. p * (int k + 1)) [0..<expected_page_count p t])"
  using assms by (simp add: py_range_def range_up_pages count_eq)

lemma pages_below:
  assumes "0 < p" and "0 \<le> t" and "k < expected_page_count p t"
  shows "p * (int k + 1) < t"
proof -
  have "p * (int k + 1) \<in> set (range_up p t p)"
    using assms by (simp add: range_up_pages count_eq)
  then show ?thesis by (rule range_up_below)
qed

lemma pages_complete:
  assumes "0 < p" and "0 \<le> t"
  shows "t \<le> p * (int (expected_page_count p t) + 1)"
proof -
  define q where "q = (t - 1) div p"
  define r where "r = (t - 1) mod p"
  have eq: "t - 1 = p * q + r" unfolding q_def r_def by simp
  have r: "r < p" using assms(1) unfolding r_def by simp
  show ?thesis
  proof (cases "t = 0")
    case True
    then show ?thesis using assms(1) by (simp add: expected_page_count_def)
  next
    case False
    then have "0 \<le> q" using assms unfolding q_def by (simp add: pos_imp_zdiv_nonneg_iff)
    then have "int (expected_page_count p t) = q"
      using count_eq[OF assms] unfolding q_def by simp
    then show ?thesis using eq r by (simp add: algebra_simps)
  qed
qed

text \<open>
  Claim C1. For a page size \<open>p > 0\<close> and a total \<open>t \<ge> 0\<close>, the URLs generated for the remaining
  pages are those of the offsets \<open>p, 2p, ...\<close>, one for each \<open>k\<close> below \<open>ceil(t/p) - 1\<close> (none
  when \<open>t = 0\<close>): in the streaming scripts for the total \<open>t\<close> of the response, in the
  total/offset script for its fixed total. Every offset is strictly below the total, and
  the next multiple of \<open>p\<close> is not.
\<close>

theorem remaining_page_requests:
  assumes "0 < p" and "0 \<le> t" and "max_results_per_page cfg = p"
  shows "urls_to_fetch cfg (JInt t)
           = Inr (map (\<lambda>k. page_url cfg (p * (int k + 1))) [0..<expected_page_count p t])
       \<and> offset_urls base_url p
           = Inr (map (\<lambda>k. offset_url base_url p (p * (int k + 1)))
                    [0..<expected_page_count p simulated_total])
       \<and> (\<forall>k < expected_page_count p t. p * (int k + 1) < t)
       \<and> t \<le> p * (int (expected_page_count p t) + 1)"
proof -
  have "urls_to_fetch cfg (JInt t)
           = Inr (map (\<lambda>k. page_url cfg (p * (int k + 1))) [0..<expected_page_count p t])"
    using assms by (simp add: urls_to_fetch_def py_range_pages comp_def)
  moreover have "offset_urls base_url p
           = Inr (map (\<lambda>k. offset_url base_url p (p * (int k + 1)))
                    [0..<expected_page_count p simulated_total])"
    using assms(1) by (simp add: offset_urls_def py_range_pages comp_def simulated_total_def)
  ultimately show ?thesis
    using assms pages_below pages_complete by simp
qed

theorem remaining_page_requests_witness:
  "urls_to_fetch original_config (JInt 45)
     = Inr [''https://dummyjson.com/products?limit=20&skip=20'',
            ''https://dummyjson.com/products?limit=20&skip=40'']
   \<and> offset_urls ''https://jsonplaceholder.typicode.com/posts'' 20
     = Inr [''https://jsonplaceholder.typicode.com/posts?_start=20&_limit=20'',
            ''https://jsonplaceholder.typicode.com/posts?_start=40&_limit=20'',
            ''https://jsonplaceholder.typicode.com/posts?_start=60&_limit=20'',
            ''https://jsonplaceholder.typicode.com/posts?_start=80&_limit=20'']
   \<and> expected_page_count 20 45 = 2"
proof -
  have c: "expected_page_count 20 45 = 2" "expected_page_count 20 simulated_total = 4"
    by (simp_all add: expected_page_count_def simulated_total_def)
  have n: "[0..<2] = [0, 1]" "[0..<4] = [0, 1, 2, 3]"
    by (simp_all add: upt_rec)
  show ?thesis
  using remaining_page_requests[of 20 45 original_config "''https://jsonplaceholder.typicode.com/posts''"]
  by (simp add: c n original_config_def page_url_def offset_url_def str_int_def str_nat.simps)
qed

section \<open>The boundary of the page fetcher\<close>

text \<open>
  Claim C2, as stated, fails: a body that is not JSON makes \<^verbatim>\<open>fetch_json\<close> raise
  \<open>JSONDecodeError\<close>, and a body that decodes to the number 7 is returned as it is, not as a
  failure.
\<close>

theorem fetch_json_not_a_boundary:
  "fetch_json undecodable_net ''https://dummyjson.com/products?limit=20&skip=0''
     = Inl JSONDecodeError
   \<and> fetch_json number_net ''https://dummyjson.com/products?limit=20&skip=0''
     = Inr (JInt 7)"
  by (simp add: fetch_json_def request_json_def undecodable_net_def number_net_def)

text \<open>
  Claim C2, amended. \<^verbatim>\<open>fetch_json\<close> returns \<^verbatim>\<open>None\<close> when the request raises a \<^verbatim>\<open>ClientError\<close>, in
  particular for every status of 400 or more; it raises exactly the exceptions of the
  request that are not a \<^verbatim>\<open>ClientError\<close>; and a body that was decoded is returned as it is,
  whatever its shape.
\<close>

theorem fetch_json_boundary:
  "(request_json (net url) = Inl e \<and> is_ClientError e \<longrightarrow> fetch_json net url = Inr JNull)
   \<and> (net url = Response status body \<and> 400 \<le> status \<longrightarrow> fetch_json net url = Inr JNull)
   \<and> (fetch_json net url = Inl e \<longleftrightarrow> request_json (net url) = Inl e \<and> \<not> is_ClientError e)
   \<and> (net url = Response status (Inr v) \<and> status < 400 \<longrightarrow> fetch_json net url = Inr v)"
  by (auto simp: fetch_json_def request_json_def split: sum.splits reply.splits if_splits)

theorem fetch_json_boundary_witness:
  "not_found_net ''u'' = Response 404 (Inr (JObj [(''message'', JStr ''not found'')]))
   \<and> request_json (not_found_net ''u'') = Inl (ClientResponseError 404)
   \<and> is_ClientError (ClientResponseError 404)
   \<and> fetch_json not_found_net ''u'' = Inr JNull
   \<and> request_json (undecodable_net ''u'') = Inl JSONDecodeError
   \<and> \<not> is_ClientError JSONDecodeError
   \<and> fetch_json undecodable_net ''u'' = Inl JSONDecodeError
   \<and> number_net ''u'' = Response 200 (Inr (JInt 7))
   \<and> fetch_json number_net ''u'' = Inr (JInt 7)"
  using fetch_json_boundary[of not_found_net "''u''" "ClientResponseError 404" 404
          "Inr (JObj [(''message'', JStr ''not found'')])"]
        fetch_json_boundary[of undecodable_net "''u''" JSONDecodeError]
        fetch_json_boundary[of number_net "''u''" _ 200 _ "JInt 7"]
  by (simp add: request_json_def not_found_net_def undecodable_net_def number_net_def)

section \<open>The header of the streamed file\<close>

text \<open>The text of the header record of the original streaming script.\<close>

lemma original_header_text:
  "header_text (fields_to_extract original_config) = ''id,title,brand,category,price,rating''"
  by (simp add: header_text_def csv_field_def original_config_def)

text \<open>
  Claim C3 fails on the original streaming script: when the first page has no items and
  a later page has some, the rows of the later page are written and no header ever is;
  the flag \<^verbatim>\<open>header_written\<close> stays false.
\<close>

theorem rows_without_header:
  "main original_config empty_first_page_net no_delay
     = \<lparr>csv_file = [Row [JInt 21, JStr ''Lamp'', JStr [], JStr [], JStr [], JStr []]],
        requests = [''https://dummyjson.com/products?limit=20&skip=0'',
                    ''https://dummyjson.com/products?limit=20&skip=20''],
        header_written = False,
        completion = Returned\<rparr>"
  by code_simp

section \<open>A page size that is not positive\<close>



lemma except_IOError_keeps [simp]:
  "requests (except_IOError r) = requests r"
  "csv_file (except_IOError r) = csv_file r"
  "header_written (except_IOError r) = header_written r"
  by (simp_all add: except_IOError_def split: completion.splits)







section \<open>The item transformer\<close>









lemma get_item_data_item:
  "is_item item \<Longrightarrow> \<exists>out. get_item_data item = Inr (JObj out)"
  by (cases item) simp_all









section \<open>Pages that fail, and the order of completion\<close>

lemma page_rows_failure [simp]: "page_rows cfg JNull = []"
  by (simp add: page_rows_def page_items_def)






























section \<open>Following links\<close>




section \<open>Falsy bodies\<close>

lemma process_page_falsy: "\<not> truthy page \<Longrightarrow> process_page parse cfg page = ([], Returned)"
  by (simp add: process_page_def)

lemma main_with_falsy:
  "\<not> truthy page \<Longrightarrow> fetch_json net (initial_url cfg) = Inr page \<Longrightarrow>
     main_with parse cfg net delay
       = \<lparr>csv_file = [], requests = [initial_url cfg], header_written = False,
          completion = Returned\<rparr>"
  by (simp add: main_with_def main_body_def except_IOError_def)

lemma fetch_loop_falsy:
  "\<not> truthy page \<Longrightarrow> fetch_json net url = Inr page \<Longrightarrow> url \<noteq> [] \<Longrightarrow>
     fetch_loop net (JStr url) all_items requested = Some (requested @ [url], Inr all_items)"
  by (subst fetch_loop.simps) simp

lemma fetch_all_falsy:
  "\<not> truthy page \<Longrightarrow> fetch_json net (offset_url base_url p 0) = Inr page \<Longrightarrow>
     fetch_all_with_total_offset net delay base_url p = ([offset_url base_url p 0], Inr (JArr []))"
  by (simp add: fetch_all_with_total_offset_def Let_def)

text \<open>
  Claim C10. A fetched body that is falsy is treated as a failed fetch (\<^verbatim>\<open>None\<close>): the
  link-following loop stops at it and keeps the items so far; as a first page it ends a
  streaming run with nothing written, and makes the total/offset script return the empty
  list; as a later page it is skipped by the streaming loop and by the combining loop,
  exactly as \<^verbatim>\<open>None\<close> is.
\<close>

theorem falsy_body_is_a_failure:
  assumes "\<not> truthy page"
  shows "(fetch_json net url = Inr page \<and> url \<noteq> [] \<longrightarrow>
            fetch_loop net (JStr url) all_items requested
              = Some (requested @ [url], Inr all_items))
       \<and> (fetch_json net (initial_url cfg) = Inr page \<longrightarrow>
            main_with parse cfg net delay
              = \<lparr>csv_file = [], requests = [initial_url cfg], header_written = False,
                 completion = Returned\<rparr>)
       \<and> process_page parse cfg page = ([], Returned)
       \<and> stream_pages parse cfg (Inr page # futures) = stream_pages parse cfg (Inr JNull # futures)
       \<and> stream_pages parse cfg (Inr page # futures) = stream_pages parse cfg futures
       \<and> (fetch_json net (offset_url base_url p 0) = Inr page \<longrightarrow>
            fetch_all_with_total_offset net delay base_url p
              = ([offset_url base_url p 0], Inr (JArr [])))
       \<and> combine items (page # remaining) = combine items (JNull # remaining)
       \<and> combine items (page # remaining) = combine items remaining"
  using assms fetch_loop_falsy[of page net url all_items requested]
    main_with_falsy[of page net cfg parse delay] fetch_all_falsy[of page net base_url p delay]
  by (simp add: process_page_falsy split: prod.splits)


theorem falsy_body_is_a_failure_witness:
  "\<not> truthy (JObj [])
   \<and> fetch_json empty_object_net ''https://swapi.dev/api/people/'' = Inr (JObj [])
   \<and> fetch_loop empty_object_net (JStr ''https://swapi.dev/api/people/'') [] []
       = Some ([''https://swapi.dev/api/people/''], Inr [])
   \<and> fetch_json empty_object_net (initial_url original_config) = Inr (JObj [])
   \<and> main original_config empty_object_net no_delay
       = \<lparr>csv_file = [], requests = [initial_url original_config], header_written = False,
          completion = Returned\<rparr>
   \<and> process_page raw_items original_config (JObj []) = ([], Returned)
   \<and> fetch_all_with_total_offset empty_object_net no_delay
         ''https://jsonplaceholder.typicode.com/posts'' 20
       = ([offset_url ''https://jsonplaceholder.typicode.com/posts'' 20 0], Inr (JArr []))"
proof -
  have t: "\<not> truthy (JObj [])" by simp
  have f: "fetch_json empty_object_net url = Inr (JObj [])" for url
    by (simp add: fetch_json_def request_json_def empty_object_net_def)
  note T = falsy_body_is_a_failure[OF t, of empty_object_net "''https://swapi.dev/api/people/''"
      "[]" "[]" original_config raw_items no_delay _
      "''https://jsonplaceholder.typicode.com/posts''" 20]
  show ?thesis
    using t f T by (simp add: main_def)
qed


end
